theory Spec2Isabelle
  imports Main "HOL-Library.Word"
begin

unbundle bit_operations_syntax

section \<open>Bytes, hex strings and errors (utils/bytes.ts)\<close>

text \<open>
  A \<^verbatim>\<open>Buffer\<close> or \<^verbatim>\<open>Uint8Array\<close> is a list of 8-bit words. A JavaScript string is
  modelled by the list of its UTF-8 bytes as characters, so \<^verbatim>\<open>Buffer.from(s, 'utf-8')\<close>
  and \<^verbatim>\<open>buf.toString('utf-8')\<close> are the two directions of a byte-wise conversion.
\<close>

type_synonym byte = "8 word"
type_synonym bytes = "byte list"

text \<open>
  Every \<^verbatim>\<open>throw\<close> of the repository is a constructor; \<open>LibError\<close> stands for an
  exception raised inside an external library (noble, node:crypto, JSON, ethers, IPFS,
  snarkjs). \<open>RngExhausted\<close> is not an exception of the source: the random tape of the
  model is finite, and this value says that it ran out before the call returned.
\<close>

datatype error =
    HexPrefixError            \<comment> \<open>'Hex string must start with 0x'\<close>
  | PrivateKeyLengthError     \<comment> \<open>'Private key must be 32 bytes'\<close>
  | MacMismatch               \<comment> \<open>'encrypted key MAC mismatch'\<close>
  | FromRequired              \<comment> \<open>'from email is required'\<close>
  | ResolverNotConfigured     \<comment> \<open>'recipientResolver is not configured; cannot derive public key'\<close>
  | LibError string
  | RngExhausted

definition bufferFromUtf8 :: "string \<Rightarrow> bytes" where
  "bufferFromUtf8 s = map (\<lambda>c. word_of_nat (of_char c)) s"

definition bufferToUtf8 :: "bytes \<Rightarrow> string" where
  "bufferToUtf8 bs = map (\<lambda>b. char_of (unat b)) bs"

definition startsWith :: "string \<Rightarrow> string \<Rightarrow> bool" where
  "startsWith s p = (take (length p) s = p)"

definition hexDigit :: "nat \<Rightarrow> char" where
  "hexDigit n = ''0123456789abcdef'' ! n"

text \<open>\<^verbatim>\<open>Buffer.toString('hex')\<close>: two lowercase digits per byte.\<close>

definition hexEncode :: "bytes \<Rightarrow> string" where
  "hexEncode bs = concat (map (\<lambda>b. [hexDigit (unat b div 16), hexDigit (unat b mod 16)]) bs)"

definition hexValue :: "char \<Rightarrow> nat option" where
  "hexValue c =
     (let n = (of_char c :: nat) in
      if 48 \<le> n \<and> n \<le> 57 then Some (n - 48)
      else if 97 \<le> n \<and> n \<le> 102 then Some (n - 87)
      else if 65 \<le> n \<and> n \<le> 70 then Some (n - 55)
      else None)"

text \<open>
  \<^verbatim>\<open>Buffer.from(text, 'hex')\<close>: decodes pairs of digits and stops, keeping what it has,
  at the first pair that is not hexadecimal or at a trailing single character.
\<close>

fun hexDecode :: "string \<Rightarrow> bytes" where
  "hexDecode (a # b # rest) =
     (case hexValue a of
        None \<Rightarrow> []
      | Some h \<Rightarrow>
          (case hexValue b of
             None \<Rightarrow> []
           | Some l \<Rightarrow> word_of_nat (16 * h + l) # hexDecode rest))"
| "hexDecode _ = []"

definition toHex :: "bytes \<Rightarrow> string" where
  "toHex buffer = ''0x'' @ hexEncode buffer"

definition fromHex :: "string \<Rightarrow> error + bytes" where
  "fromHex hex =
     (if \<not> startsWith hex ''0x'' then Inl HexPrefixError
      else Inr (hexDecode (drop 2 hex)))"

section \<open>Data model (types/mail.ts)\<close>

record AttachmentMeta =
  att_name :: string
  att_mimeType :: string
  att_size :: int
  att_cid :: "string option"

record MailContent =
  mail_from :: string
  mail_to :: string
  mail_subject :: string
  mail_body :: string
  mail_timestamp :: "int option"
  mail_attachments :: "AttachmentMeta list option"

record MailMetadata =
  md_version :: string
  md_timestamp :: int
  md_size :: nat
  md_contentType :: string

record EncryptedContentPayload =
  ec_algorithm :: string
  ec_ciphertext :: string
  ec_iv :: string
  ec_authTag :: string

record EncryptedKeyPayload =
  ek_algorithm :: string
  ek_ephemeralPublicKey :: string
  ek_ciphertext :: string
  ek_mac :: string

record EncryptedMailPackage =
  pkg_version :: string
  encryptedContent :: EncryptedContentPayload
  encryptedKey :: EncryptedKeyPayload
  metadata :: MailMetadata

section \<open>External primitives\<close>

text \<open>
  The cryptographic and serialisation primitives are library code (\<^verbatim>\<open>@noble/secp256k1\<close>,
  \<^verbatim>\<open>node:crypto\<close>, \<^verbatim>\<open>JSON\<close>), not code of the repository: they are parameters of the
  model. A primitive that can throw returns a sum.
  \<^item> \<open>noble_getPublicKey k\<close> is \<^verbatim>\<open>getPublicKey(k, true)\<close>;
  \<^item> \<open>noble_getSharedSecret k p\<close> is \<^verbatim>\<open>getSharedSecret(k, p, true)\<close>;
  \<^item> \<open>hkdfSync ikm salt info n\<close> is \<^verbatim>\<open>hkdfSync('sha256', ikm, salt, info, n)\<close>;
  \<^item> \<open>hmacSha256 key msg\<close> is \<^verbatim>\<open>createHmac('sha256', key).update(msg).digest()\<close>;
  \<^item> \<open>aesGcmSeal key iv pt\<close> is \<^verbatim>\<open>createCipheriv('aes-256-gcm', key, iv)\<close> followed by
    \<^verbatim>\<open>update\<close>, \<^verbatim>\<open>final\<close> and \<^verbatim>\<open>getAuthTag\<close>, giving ciphertext and tag;
  \<^item> \<open>aesGcmOpen key iv ct tag\<close> is \<^verbatim>\<open>createDecipheriv\<close> with \<^verbatim>\<open>setAuthTag\<close>, \<^verbatim>\<open>update\<close>
    and \<^verbatim>\<open>final\<close>;
  \<^item> \<open>jsonStringifyMail\<close> and \<open>jsonParseMail\<close> are \<^verbatim>\<open>JSON.stringify\<close> and \<^verbatim>\<open>JSON.parse\<close>
    at the type \<open>MailContent\<close>.
\<close>

record primitives =
  noble_getPublicKey :: "bytes \<Rightarrow> error + bytes"
  noble_getSharedSecret :: "bytes \<Rightarrow> bytes \<Rightarrow> error + bytes"
  hkdfSync :: "bytes \<Rightarrow> bytes \<Rightarrow> bytes \<Rightarrow> nat \<Rightarrow> bytes"
  hmacSha256 :: "bytes \<Rightarrow> bytes \<Rightarrow> bytes"
  aesGcmSeal :: "bytes \<Rightarrow> bytes \<Rightarrow> bytes \<Rightarrow> error + bytes \<times> bytes"
  aesGcmOpen :: "bytes \<Rightarrow> bytes \<Rightarrow> bytes \<Rightarrow> bytes \<Rightarrow> error + bytes"
  jsonStringifyMail :: "MailContent \<Rightarrow> string"
  jsonParseMail :: "string \<Rightarrow> error + MailContent"

text \<open>
  \<^verbatim>\<open>randomBytes(n)\<close> reads the next \<open>n\<close> bytes of a random tape, which is part of the
  state; \<open>None\<close> when the tape is too short.
\<close>

definition randomBytes :: "nat \<Rightarrow> bytes \<Rightarrow> (bytes \<times> bytes) option" where
  "randomBytes n tape =
     (if length tape < n then None else Some (take n tape, drop n tape))"

section \<open>Key derivation (utils/hkdf.ts)\<close>

definition deriveKey :: "primitives \<Rightarrow> bytes \<Rightarrow> string \<Rightarrow> nat \<Rightarrow> bytes" where
  "deriveKey P sharedSecret info len = hkdfSync P sharedSecret [] (bufferFromUtf8 info) len"

section \<open>Hybrid encryption (encryption/EncryptionManager.ts)\<close>

record EncryptionManager =
  em_version :: string

definition ensureHexPrefix :: "string \<Rightarrow> string" where
  "ensureHexPrefix v = (if startsWith v ''0x'' then v else ''0x'' @ v)"

definition normalizePublicKey :: "string \<Rightarrow> error + bytes" where
  "normalizePublicKey hex = fromHex (ensureHexPrefix hex)"

definition normalizePrivateKey :: "string \<Rightarrow> error + bytes" where
  "normalizePrivateKey hex =
     (case fromHex (ensureHexPrefix hex) of
        Inl e \<Rightarrow> Inl e
      | Inr buff \<Rightarrow> if length buff \<noteq> 32 then Inl PrivateKeyLengthError else Inr buff)"

definition computeSharedSecret :: "primitives \<Rightarrow> bytes \<Rightarrow> bytes \<Rightarrow> error + bytes" where
  "computeSharedSecret P privateKey publicKey =
     (case noble_getSharedSecret P privateKey publicKey of
        Inl e \<Rightarrow> Inl e
      | Inr secret \<Rightarrow> Inr (drop 1 secret))"

text \<open>
  The resampling loop of \<^verbatim>\<open>generatePrivateKey\<close>: draw 32 bytes until they are not all
  zero. It returns the key and the rest of the tape, or \<open>None\<close> when the tape ran out.
\<close>

function generatePrivateKey :: "bytes \<Rightarrow> (bytes \<times> bytes) option" where
  "generatePrivateKey tape =
     (case randomBytes 32 tape of
        None \<Rightarrow> None
      | Some (key, tape') \<Rightarrow>
          if length key = 0 \<or> list_all (\<lambda>b. b = 0) key then generatePrivateKey tape'
          else Some (key, tape'))"
  by pat_completeness auto
termination
  by (relation "measure length") (auto simp: randomBytes_def split: if_splits)

declare generatePrivateKey.simps [simp del]

text \<open>
  The loop \<^verbatim>\<open>out[i] = key[i] ^ maskKey[i % maskKey.length]\<close> for \<open>i < key.length\<close>. With an
  empty mask the index is \<^verbatim>\<open>NaN\<close>, the read is \<^verbatim>\<open>undefined\<close> and the XOR leaves the byte.
\<close>

definition xorMask :: "bytes \<Rightarrow> bytes \<Rightarrow> bytes" where
  "xorMask key maskKey =
     map (\<lambda>i. if maskKey = [] then key ! i
              else (key ! i) XOR (maskKey ! (i mod length maskKey)))
         [0 ..< length key]"

definition wrapSymmetricKey ::
  "primitives \<Rightarrow> bytes \<Rightarrow> bytes \<Rightarrow> bytes \<Rightarrow> error + (bytes \<times> bytes \<times> bytes) \<times> bytes" where
  "wrapSymmetricKey P tape key recipientPublicKey =
     (case generatePrivateKey tape of
        None \<Rightarrow> Inl RngExhausted
      | Some (ephemeralPrivateKey, tape') \<Rightarrow>
     (case noble_getPublicKey P ephemeralPrivateKey of
        Inl e \<Rightarrow> Inl e
      | Inr ephemeralPublicKey \<Rightarrow>
     (case computeSharedSecret P ephemeralPrivateKey recipientPublicKey of
        Inl e \<Rightarrow> Inl e
      | Inr sharedSecret \<Rightarrow>
          (let maskKey = deriveKey P sharedSecret ''basemailer-mask'' 32;
               macKey = deriveKey P sharedSecret ''basemailer-mac'' 32;
               encKey = xorMask key maskKey;
               mac = hmacSha256 P macKey encKey
           in Inr ((encKey, mac, ephemeralPublicKey), tape')))))"

definition unwrapSymmetricKey ::
  "primitives \<Rightarrow> EncryptedMailPackage \<Rightarrow> string \<Rightarrow> error + bytes" where
  "unwrapSymmetricKey P pkg recipientPrivateKeyHex =
     (case normalizePublicKey (ek_ephemeralPublicKey (encryptedKey pkg)) of
        Inl e \<Rightarrow> Inl e
      | Inr ephemeralPublicKey \<Rightarrow>
     (case normalizePrivateKey recipientPrivateKeyHex of
        Inl e \<Rightarrow> Inl e
      | Inr recipientPrivateKey \<Rightarrow>
     (case computeSharedSecret P recipientPrivateKey ephemeralPublicKey of
        Inl e \<Rightarrow> Inl e
      | Inr sharedSecret \<Rightarrow>
          (let maskKey = deriveKey P sharedSecret ''basemailer-mask'' 32;
               macKey = deriveKey P sharedSecret ''basemailer-mac'' 32
           in
     (case fromHex (ek_ciphertext (encryptedKey pkg)) of
        Inl e \<Rightarrow> Inl e
      | Inr encKey \<Rightarrow>
          (let expectedMac = hmacSha256 P macKey encKey in
     (case fromHex (ek_mac (encryptedKey pkg)) of
        Inl e \<Rightarrow> Inl e
      | Inr providedMac \<Rightarrow>
          if expectedMac \<noteq> providedMac then Inl MacMismatch
          else Inr (xorMask encKey maskKey))))))))"

text \<open>
  \<^verbatim>\<open>encrypt\<close> takes the clock reading \<open>now\<close> (used only when the content has no
  timestamp) and the random tape, and returns the package with the rest of the tape.
\<close>

definition encrypt ::
  "primitives \<Rightarrow> EncryptionManager \<Rightarrow> int \<Rightarrow> bytes \<Rightarrow> MailContent \<Rightarrow> string
     \<Rightarrow> error + EncryptedMailPackage \<times> bytes" where
  "encrypt P M now tape content recipientPublicKeyHex =
     (let timestamp = (case mail_timestamp content of Some t \<Rightarrow> t | None \<Rightarrow> now);
          canonical = content\<lparr>mail_timestamp := Some timestamp\<rparr>;
          plaintext = bufferFromUtf8 (jsonStringifyMail P canonical)
      in
     (case randomBytes 32 tape of
        None \<Rightarrow> Inl RngExhausted
      | Some (symmetricKey, tape1) \<Rightarrow>
     (case randomBytes 12 tape1 of
        None \<Rightarrow> Inl RngExhausted
      | Some (iv, tape2) \<Rightarrow>
     (case aesGcmSeal P symmetricKey iv plaintext of
        Inl e \<Rightarrow> Inl e
      | Inr (ciphertext, authTag) \<Rightarrow>
     (case normalizePublicKey recipientPublicKeyHex of
        Inl e \<Rightarrow> Inl e
      | Inr recipientPublicKey \<Rightarrow>
     (case wrapSymmetricKey P tape2 symmetricKey recipientPublicKey of
        Inl e \<Rightarrow> Inl e
      | Inr ((encKey, mac, ephemeralPublicKey), tape3) \<Rightarrow>
          (let metadataSize = length ciphertext + length encKey in
           Inr (\<lparr> pkg_version = em_version M,
                   encryptedContent =
                     \<lparr> ec_algorithm = ''AES-256-GCM'',
                       ec_ciphertext = toHex ciphertext,
                       ec_iv = toHex iv,
                       ec_authTag = toHex authTag \<rparr>,
                   encryptedKey =
                     \<lparr> ek_algorithm = ''ECIES-secp256k1'',
                       ek_ephemeralPublicKey = toHex ephemeralPublicKey,
                       ek_ciphertext = toHex encKey,
                       ek_mac = toHex mac \<rparr>,
                   metadata =
                     \<lparr> md_version = em_version M,
                       md_timestamp = timestamp,
                       md_size = metadataSize,
                       md_contentType = ''mail'' \<rparr> \<rparr>,
                tape3))))))))"

definition decrypt ::
  "primitives \<Rightarrow> EncryptionManager \<Rightarrow> EncryptedMailPackage \<Rightarrow> string \<Rightarrow> error + MailContent" where
  "decrypt P M pkg recipientPrivateKeyHex =
     (case unwrapSymmetricKey P pkg recipientPrivateKeyHex of
        Inl e \<Rightarrow> Inl e
      | Inr symmetricKey \<Rightarrow>
     (case fromHex (ec_iv (encryptedContent pkg)) of
        Inl e \<Rightarrow> Inl e
      | Inr iv \<Rightarrow>
     (case fromHex (ec_ciphertext (encryptedContent pkg)) of
        Inl e \<Rightarrow> Inl e
      | Inr ciphertext \<Rightarrow>
     (case fromHex (ec_authTag (encryptedContent pkg)) of
        Inl e \<Rightarrow> Inl e
      | Inr authTag \<Rightarrow>
     (case aesGcmOpen P symmetricKey iv ciphertext authTag of
        Inl e \<Rightarrow> Inl e
      | Inr decrypted \<Rightarrow> jsonParseMail P (bufferToUtf8 decrypted))))))"

section \<open>Commitments and the commitment map (utils/bytes.ts, utils/cid-store.ts)\<close>

text \<open>
  \<^verbatim>\<open>keccak256\<close> and \<^verbatim>\<open>toUtf8Bytes\<close> come from ethers. The digest function itself is a
  parameter \<open>K\<close>; ethers returns the digest as a \<^verbatim>\<open>0x\<close>-prefixed lowercase hex string.
\<close>

definition toUtf8Bytes :: "string \<Rightarrow> bytes" where
  "toUtf8Bytes s = bufferFromUtf8 s"

definition keccak256 :: "(bytes \<Rightarrow> bytes) \<Rightarrow> bytes \<Rightarrow> string" where
  "keccak256 K data = toHex (K data)"

definition cidToBytes32 :: "(bytes \<Rightarrow> bytes) \<Rightarrow> string \<Rightarrow> string" where
  "cidToBytes32 K cid = (let hash = keccak256 K (toUtf8Bytes cid) in hash)"

text \<open>\<^verbatim>\<open>InMemoryCidStore\<close>: a \<^verbatim>\<open>Map<string, string>\<close> read and written by key.\<close>

type_synonym CidStore = "string \<rightharpoonup> string"

definition cidStore_set :: "string \<Rightarrow> string \<Rightarrow> CidStore \<Rightarrow> CidStore" where
  "cidStore_set key cid store = store(key \<mapsto> cid)"

definition cidStore_get :: "string \<Rightarrow> CidStore \<Rightarrow> string option" where
  "cidStore_get key store = store key"

section \<open>The mail index (service/types.ts, service/MailStore.ts)\<close>

record StoredMail =
  sm_mailId :: string
  sm_cid :: string
  sm_contentHash :: string
  sm_senderEmail :: string
  sm_recipientEmail :: string
  sm_timestamp :: int
  sm_blockNumber :: "nat option"
  sm_txHash :: "string option"

text \<open>
  \<^verbatim>\<open>InMemoryMailStore\<close> holds a JavaScript \<^verbatim>\<open>Map\<close>, which keeps its entries in insertion
  order: \<^verbatim>\<open>set\<close> replaces the value of a key that is present, in place, and appends a new
  key at the end. The map is an association list so that duplicates would be visible.
\<close>

type_synonym MailStore = "(string \<times> StoredMail) list"

fun mapSet :: "'k \<Rightarrow> 'v \<Rightarrow> ('k \<times> 'v) list \<Rightarrow> ('k \<times> 'v) list" where
  "mapSet k v [] = [(k, v)]"
| "mapSet k v ((k', v') # rest) =
     (if k' = k then (k, v) # rest else (k', v') # mapSet k v rest)"

definition save :: "StoredMail \<Rightarrow> MailStore \<Rightarrow> MailStore" where
  "save mail mails = mapSet (sm_mailId mail) mail mails"

definition get :: "string \<Rightarrow> MailStore \<Rightarrow> StoredMail option" where
  "get mailId mails = map_of mails mailId"

definition getInbox :: "string \<Rightarrow> MailStore \<Rightarrow> StoredMail list" where
  "getInbox email mails = filter (\<lambda>mail. sm_recipientEmail mail = email) (map snd mails)"

definition getSentbox :: "string \<Rightarrow> MailStore \<Rightarrow> StoredMail list" where
  "getSentbox email mails = filter (\<lambda>mail. sm_senderEmail mail = email) (map snd mails)"

section \<open>The outside world: ledger, storage backend, prover\<close>

record RecipientResolutionResult =
  rr_email :: string
  rr_owner :: string
  rr_publicKey :: string

record Log =
  log_topics :: "string list option"
  log_data :: string

record Receipt =
  rc_logs :: "Log list option"
  rc_blockNumber :: "nat option"

text \<open>A submitted transaction: its hash, and what \<^verbatim>\<open>await tx.wait()\<close> gives.\<close>

record Tx =
  tx_hash :: string
  tx_wait :: "error + Receipt option"

record ProofInputs =
  in_senderEmail :: string
  in_recipientEmail :: string
  in_contentHash :: string

record Groth16Proof =
  pi_a :: "string list"
  pi_b :: "string list list"
  pi_c :: "string list"

record ProofResult =
  pr_proof :: string
  pr_publicSignals :: "string list"

text \<open>
  The collaborators are parameters of the model; each call that can throw returns a sum.
  \<^item> \<open>registry_resolveEmail\<close>: the registry contract's \<^verbatim>\<open>resolveEmail\<close>;
  \<^item> \<open>recipientResolver\<close>: the optional hook of the client configuration;
  \<^item> \<open>ipfs_add data pin\<close>, \<open>ipfs_pin_add\<close>, \<open>gzip\<close>: the IPFS HTTP client and pako;
  \<^item> \<open>groth16_fullProve\<close>, \<open>groth16_verify\<close>: snarkjs; \<open>abi_encodeProof\<close>,
    \<open>abi_decodeProof\<close>: the ABI coder of ethers at the proof's tuple type, including the
    \<^verbatim>\<open>BigInt\<close> conversions; \<open>bigIntToString h\<close> is \<^verbatim>\<open>BigInt(h).toString()\<close>;
  \<^item> \<open>mailer_sendMail\<close>: the mailer contract's \<^verbatim>\<open>sendMail\<close>;
  \<^item> \<open>mailSentTopicHash\<close>: \<^verbatim>\<open>interface.getEvent('MailSent')\<close> and its \<^verbatim>\<open>topicHash\<close>,
    \<open>None\<close> when the event is not found; \<open>parseLogMailId log\<close> is
    \<^verbatim>\<open>interface.parseLog(log)?.args?.mailId?.toString()\<close>.
\<close>

record env =
  prims :: primitives
  keccakDigest :: "bytes \<Rightarrow> bytes"
  jsonStringifyPackage :: "EncryptedMailPackage \<Rightarrow> string"
  registry_resolveEmail :: "string \<Rightarrow> error + string"
  recipientResolver :: "(string \<Rightarrow> string \<Rightarrow> error + RecipientResolutionResult) option"
  gzip :: "bytes \<Rightarrow> bytes"
  ipfs_add :: "bytes \<Rightarrow> bool \<Rightarrow> error + string"
  ipfs_pin_add :: "string \<Rightarrow> error + unit"
  groth16_fullProve :: "ProofInputs \<Rightarrow> error + Groth16Proof \<times> string list"
  groth16_verify :: "string \<Rightarrow> string list \<Rightarrow> Groth16Proof \<Rightarrow> error + bool"
  abi_encodeProof :: "Groth16Proof \<Rightarrow> error + string"
  abi_decodeProof :: "string \<Rightarrow> error + Groth16Proof"
  bigIntToString :: "string \<Rightarrow> error + string"
  mailer_sendMail :: "string \<Rightarrow> string \<Rightarrow> string \<Rightarrow> string \<Rightarrow> error + Tx"
  mailSentTopicHash :: "string option"
  parseLogMailId :: "Log \<Rightarrow> error + string option"

text \<open>Calls that leave the process are recorded, in order, in a trace.\<close>

datatype event =
    EvResolveEmail string
  | EvRecipientResolver string string
  | EvEncrypt MailContent string
  | EvIpfsAdd bytes
  | EvCidStoreSet string string
  | EvFullProve ProofInputs
  | EvGroth16Verify "string list"
  | EvIpfsPinAdd string
  | EvMailerSendMail string string string string
  | EvTxWait string

record state =
  st_tape :: bytes
  st_now :: int
  st_cidStore :: CidStore
  st_mails :: MailStore
  st_trace :: "event list"

type_synonym 'a action = "state \<Rightarrow> (error + 'a) \<times> state"

definition ret :: "'a \<Rightarrow> 'a action" where
  "ret a s = (Inr a, s)"

definition throw :: "error \<Rightarrow> 'a action" where
  "throw e s = (Inl e, s)"

text \<open>Sequencing of awaited steps: an exception skips everything that follows.\<close>

definition andThen :: "'a action \<Rightarrow> ('a \<Rightarrow> 'b action) \<Rightarrow> 'b action" where
  "andThen m f s = (case m s of (Inl e, s') \<Rightarrow> (Inl e, s') | (Inr a, s') \<Rightarrow> f a s')"

text \<open>An external call: the event is recorded, then the collaborator answers or throws.\<close>

definition call :: "event \<Rightarrow> error + 'a \<Rightarrow> 'a action" where
  "call ev answer s = (answer, s\<lparr>st_trace := st_trace s @ [ev]\<rparr>)"

definition cidStoreSet :: "string \<Rightarrow> string \<Rightarrow> unit action" where
  "cidStoreSet key cid s =
     (Inr (), s\<lparr>st_cidStore := cidStore_set key cid (st_cidStore s),
                st_trace := st_trace s @ [EvCidStoreSet key cid]\<rparr>)"

section \<open>Storage client (storage/IPFSClient.ts)\<close>

record IPFSClient =
  shouldPin :: bool
  shouldCompress :: bool

definition upload :: "env \<Rightarrow> IPFSClient \<Rightarrow> EncryptedMailPackage \<Rightarrow> string action" where
  "upload E C pkg =
     (let payload = bufferFromUtf8 (jsonStringifyPackage E pkg);
          data = (if shouldCompress C then gzip E payload else payload)
      in call (EvIpfsAdd data) (ipfs_add E data (shouldPin C)))"

definition pin :: "env \<Rightarrow> IPFSClient \<Rightarrow> string \<Rightarrow> unit action" where
  "pin E C cid =
     (if \<not> shouldPin C then ret ()
      else call (EvIpfsPinAdd cid) (ipfs_pin_add E cid))"

section \<open>Proof generation (zkproof/ProofGenerator.ts)\<close>

definition packProof :: "env \<Rightarrow> Groth16Proof \<Rightarrow> error + string" where
  "packProof E proof = abi_encodeProof E proof"

definition generateProof :: "env \<Rightarrow> ProofInputs \<Rightarrow> ProofResult action" where
  "generateProof E inputs =
     andThen (call (EvFullProve inputs) (groth16_fullProve E inputs))
       (\<lambda>(proof, publicSignals).
          case packProof E proof of
            Inl e \<Rightarrow> throw e
          | Inr packed \<Rightarrow> ret \<lparr> pr_proof = packed, pr_publicSignals = publicSignals \<rparr>)"

section \<open>Dispatch (client/BaseMailerClient.ts)\<close>

record SendMailParams =
  p_from :: string
  p_to :: string
  p_subject :: string
  p_body :: string
  p_attachments :: "AttachmentMeta list option"

record SendMailResponse =
  resp_mailId :: string
  resp_cid :: string
  resp_txHash :: string

record BaseMailerClient =
  encryption :: EncryptionManager
  storage :: IPFSClient

definition resolveOwner :: "env \<Rightarrow> string \<Rightarrow> string action" where
  "resolveOwner E email = call (EvResolveEmail email) (registry_resolveEmail E email)"

definition resolveRecipient :: "env \<Rightarrow> string \<Rightarrow> RecipientResolutionResult action" where
  "resolveRecipient E email =
     andThen (resolveOwner E email)
       (\<lambda>owner.
          case recipientResolver E of
            None \<Rightarrow> throw ResolverNotConfigured
          | Some resolver \<Rightarrow> call (EvRecipientResolver email owner) (resolver email owner))"

text \<open>The loop over the receipt's logs: the first log whose first topic is the event's.\<close>

fun firstMailSent :: "env \<Rightarrow> string \<Rightarrow> Log list \<Rightarrow> error + string option" where
  "firstMailSent E topicHash [] = Inr None"
| "firstMailSent E topicHash (log # rest) =
     (let topics = (case log_topics log of None \<Rightarrow> [] | Some ts \<Rightarrow> ts) in
      if length topics > 0 \<and> topics ! 0 = topicHash then parseLogMailId E log
      else firstMailSent E topicHash rest)"

definition extractMailIdFromReceipt :: "env \<Rightarrow> Log list option \<Rightarrow> error + string option" where
  "extractMailIdFromReceipt E logs =
     (case logs of
        None \<Rightarrow> Inr None
      | Some ls \<Rightarrow>
          (case mailSentTopicHash E of
             None \<Rightarrow> Inr None
           | Some topicHash \<Rightarrow>
               if topicHash = [] then Inr None else firstMailSent E topicHash ls))"

definition dateNow :: "int action" where
  "dateNow s = (Inr (st_now s), s)"

definition encryptStep :: "env \<Rightarrow> EncryptionManager \<Rightarrow> MailContent \<Rightarrow> string
    \<Rightarrow> EncryptedMailPackage action" where
  "encryptStep E M content publicKey s =
     (let s' = s\<lparr>st_trace := st_trace s @ [EvEncrypt content publicKey]\<rparr> in
      case encrypt (prims E) M (st_now s) (st_tape s) content publicKey of
        Inl e \<Rightarrow> (Inl e, s')
      | Inr (pkg, tape') \<Rightarrow> (Inr pkg, s'\<lparr>st_tape := tape'\<rparr>))"

definition receiptLogs :: "Receipt option \<Rightarrow> Log list option" where
  "receiptLogs receipt = (case receipt of None \<Rightarrow> None | Some r \<Rightarrow> rc_logs r)"

definition sendMail :: "env \<Rightarrow> BaseMailerClient \<Rightarrow> SendMailParams \<Rightarrow> SendMailResponse action" where
  "sendMail E C params =
     (if p_from params = [] then throw FromRequired
      else
        andThen (resolveRecipient E (p_to params)) (\<lambda>recipient.
        andThen dateNow (\<lambda>now.
        (let content = \<lparr> mail_from = p_from params, mail_to = p_to params,
                         mail_subject = p_subject params, mail_body = p_body params,
                         mail_timestamp = Some now,
                         mail_attachments = p_attachments params \<rparr> in
        andThen (encryptStep E (encryption C) content (rr_publicKey recipient)) (\<lambda>encrypted.
        andThen (upload E (storage C) encrypted) (\<lambda>cid.
        (let contentCID = cidToBytes32 (keccakDigest E) cid in
        andThen (cidStoreSet contentCID cid) (\<lambda>_.
        (let proofInputs =
               \<lparr> in_senderEmail = p_from params, in_recipientEmail = p_to params,
                 in_contentHash =
                   keccak256 (keccakDigest E) (toUtf8Bytes (jsonStringifyPackage E encrypted)) \<rparr> in
        andThen (generateProof E proofInputs) (\<lambda>proof.
        andThen (call (EvMailerSendMail (pr_proof proof) contentCID (p_from params) (p_to params))
                   (mailer_sendMail E (pr_proof proof) contentCID (p_from params) (p_to params)))
          (\<lambda>tx.
        andThen (call (EvTxWait (tx_hash tx)) (tx_wait tx)) (\<lambda>receipt.
          case extractMailIdFromReceipt E (receiptLogs receipt) of
            Inl e \<Rightarrow> throw e
          | Inr mailId \<Rightarrow>
              ret \<lparr> resp_mailId = (case mailId of Some i \<Rightarrow> i | None \<Rightarrow> ''0''),
                    resp_cid = cid,
                    resp_txHash = tx_hash tx \<rparr>))))))))))))"

section \<open>The service (service/EmailService.ts)\<close>

record EmailService =
  svc_ipfs :: IPFSClient
  svc_verificationKey :: "string option"

record SendMailRequest =
  rq_proof :: "string option"
  rq_cid :: "string option"
  rq_senderEmail :: "string option"
  rq_recipientEmail :: "string option"

datatype response =
    ErrorResponse nat string
  | SendMailOk string string int

definition errorMessage :: "error \<Rightarrow> string" where
  "errorMessage e =
     (case e of
        HexPrefixError \<Rightarrow> ''Hex string must start with 0x''
      | PrivateKeyLengthError \<Rightarrow> ''Private key must be 32 bytes''
      | MacMismatch \<Rightarrow> ''encrypted key MAC mismatch''
      | FromRequired \<Rightarrow> ''from email is required''
      | ResolverNotConfigured \<Rightarrow>
          ''recipientResolver is not configured; cannot derive public key''
      | LibError m \<Rightarrow> m
      | RngExhausted \<Rightarrow> ''Unknown error'')"

text \<open>
  \<^verbatim>\<open>start\<close> loads the verification key only when the configuration names a file; the
  file reader and \<^verbatim>\<open>JSON.parse\<close> are the parameter \<open>readKey\<close>.
\<close>

definition loadVerificationKey ::
  "(string \<Rightarrow> error + string) \<Rightarrow> string option \<Rightarrow> error + string option" where
  "loadVerificationKey readKey verificationKeyPath =
     (case verificationKeyPath of
        None \<Rightarrow> Inr None
      | Some path \<Rightarrow>
          if path = [] then Inr None
          else (case readKey path of Inl e \<Rightarrow> Inl e | Inr key \<Rightarrow> Inr (Some key)))"

definition falsy :: "string option \<Rightarrow> bool" where
  "falsy v = (case v of None \<Rightarrow> True | Some x \<Rightarrow> x = [])"

definition zeroAddress :: string where
  "zeroAddress = ''0x0000000000000000000000000000000000000000''"

definition decodeProof :: "env \<Rightarrow> string \<Rightarrow> error + Groth16Proof" where
  "decodeProof E encoded = abi_decodeProof E encoded"

definition verifyProof ::
  "env \<Rightarrow> EmailService \<Rightarrow> string \<Rightarrow> string \<Rightarrow> string \<Rightarrow> string \<Rightarrow> bool action" where
  "verifyProof E S encodedProof senderAddress senderEmail contentCID =
     (case svc_verificationKey S of
        None \<Rightarrow> ret True
      | Some key \<Rightarrow>
     (case decodeProof E encodedProof of
        Inl e \<Rightarrow> throw e
      | Inr decoded \<Rightarrow>
     (case bigIntToString E senderAddress of
        Inl e \<Rightarrow> throw e
      | Inr sig1 \<Rightarrow>
     (case bigIntToString E contentCID of
        Inl e \<Rightarrow> throw e
      | Inr sig2 \<Rightarrow>
     (case bigIntToString E (keccak256 (keccakDigest E) (toUtf8Bytes senderEmail)) of
        Inl e \<Rightarrow> throw e
      | Inr sig3 \<Rightarrow>
          (let publicSignals = [sig1, sig2, sig3] in
           call (EvGroth16Verify publicSignals) (groth16_verify E key publicSignals decoded)))))))"

fun firstMailSentService :: "env \<Rightarrow> string \<Rightarrow> Log list \<Rightarrow> error + string option" where
  "firstMailSentService E topicHash [] = Inr None"
| "firstMailSentService E topicHash (log # rest) =
     (if (case log_topics log of
            None \<Rightarrow> False
          | Some ts \<Rightarrow> (case ts of [] \<Rightarrow> False | t # _ \<Rightarrow> t = topicHash))
      then parseLogMailId E log
      else firstMailSentService E topicHash rest)"

definition extractMailId :: "env \<Rightarrow> Log list option \<Rightarrow> error + string option" where
  "extractMailId E logs =
     (case logs of
        None \<Rightarrow> Inr None
      | Some ls \<Rightarrow>
          (case mailSentTopicHash E of
             None \<Rightarrow> Inr None
           | Some topicHash \<Rightarrow>
               if topicHash = [] then Inr None else firstMailSentService E topicHash ls))"

definition storeSave :: "StoredMail \<Rightarrow> unit action" where
  "storeSave record s = (Inr (), s\<lparr>st_mails := save record (st_mails s)\<rparr>)"

text \<open>
  The body of the \<^verbatim>\<open>try\<close> block of \<^verbatim>\<open>POST /api/send-mail\<close>, after the check of the
  required fields. An early \<^verbatim>\<open>return res.status(400)\<close> is a normal result.
\<close>

definition sendMailBody ::
  "env \<Rightarrow> EmailService \<Rightarrow> string \<Rightarrow> string \<Rightarrow> string \<Rightarrow> string \<Rightarrow> response action" where
  "sendMailBody E S proof cid senderEmail recipientEmail =
     andThen (call (EvResolveEmail senderEmail) (registry_resolveEmail E senderEmail)) (\<lambda>owner.
       if owner = zeroAddress then ret (ErrorResponse 400 ''Sender email not registered'')
       else
         (let contentCID = cidToBytes32 (keccakDigest E) cid in
          andThen (cidStoreSet contentCID cid) (\<lambda>_.
          andThen (case svc_verificationKey S of
                     None \<Rightarrow> ret True
                   | Some _ \<Rightarrow> verifyProof E S proof owner senderEmail contentCID) (\<lambda>isValid.
            if \<not> isValid then ret (ErrorResponse 400 ''Invalid proof'')
            else
              andThen (pin E (svc_ipfs S) cid) (\<lambda>_.
              andThen (call (EvMailerSendMail proof contentCID senderEmail recipientEmail)
                         (mailer_sendMail E proof contentCID senderEmail recipientEmail)) (\<lambda>tx.
              andThen (call (EvTxWait (tx_hash tx)) (tx_wait tx)) (\<lambda>receipt.
                case extractMailId E (receiptLogs receipt) of
                  Inl e \<Rightarrow> throw e
                | Inr extracted \<Rightarrow>
                    (let mailId = (case extracted of Some i \<Rightarrow> i | None \<Rightarrow> ''0'') in
                     andThen dateNow (\<lambda>now.
                       (let record = \<lparr> sm_mailId = mailId, sm_cid = cid,
                                        sm_contentHash = contentCID,
                                        sm_senderEmail = senderEmail,
                                        sm_recipientEmail = recipientEmail,
                                        sm_timestamp = now,
                                        sm_blockNumber =
                                          (case receipt of None \<Rightarrow> None
                                           | Some r \<Rightarrow> rc_blockNumber r),
                                        sm_txHash = Some (tx_hash tx) \<rparr> in
                        andThen (storeSave record) (\<lambda>_.
                          ret (SendMailOk mailId (tx_hash tx) now))))))))))))"

definition postSendMail :: "env \<Rightarrow> EmailService \<Rightarrow> SendMailRequest \<Rightarrow> state \<Rightarrow> response \<times> state" where
  "postSendMail E S req s =
     (if falsy (rq_proof req) \<or> falsy (rq_cid req) \<or> falsy (rq_senderEmail req)
         \<or> falsy (rq_recipientEmail req)
      then (ErrorResponse 400 ''Missing required fields'', s)
      else
        (case sendMailBody E S (the (rq_proof req)) (the (rq_cid req))
                (the (rq_senderEmail req)) (the (rq_recipientEmail req)) s of
           (Inl e, s') \<Rightarrow> (ErrorResponse 500 (errorMessage e), s')
         | (Inr response, s') \<Rightarrow> (response, s')))"

section \<open>Ingestion (service/EmailService.ts)\<close>

definition persistEvent ::
  "string option \<Rightarrow> string option \<Rightarrow> string \<Rightarrow> string \<Rightarrow> int \<Rightarrow> nat option \<Rightarrow> string option
     \<Rightarrow> state \<Rightarrow> state" where
  "persistEvent mailId contentCID senderEmail recipientEmail timestamp blockNumber txHash s =
     (if falsy mailId \<or> falsy contentCID then s
      else
        (let cid = (case cidStore_get (the contentCID) (st_cidStore s) of
                      Some c \<Rightarrow> c
                    | None \<Rightarrow> the contentCID);
             record = \<lparr> sm_mailId = the mailId, sm_cid = cid,
                        sm_contentHash = the contentCID,
                        sm_senderEmail = senderEmail,
                        sm_recipientEmail = recipientEmail,
                        sm_timestamp = timestamp,
                        sm_blockNumber = blockNumber,
                        sm_txHash = txHash \<rparr>
         in s\<lparr>st_mails := save record (st_mails s)\<rparr>))"

text \<open>
  A decoded \<^verbatim>\<open>MailSent\<close> event. \<^verbatim>\<open>mailId\<close> and \<^verbatim>\<open>timestamp\<close> are \<^verbatim>\<open>bigint\<close>s;
  \<^verbatim>\<open>mailId.toString()\<close> is the decimal numeral.
\<close>

record MailSentArgs =
  a_mailId :: nat
  a_contentCID :: string
  a_senderEmail :: string
  a_recipientEmail :: string
  a_timestamp :: nat

record LedgerEvent =
  ev_args :: "MailSentArgs option"
  ev_blockNumber :: "nat option"
  ev_transactionHash :: "string option"

definition digitChar :: "nat \<Rightarrow> char" where
  "digitChar d = ''0123456789'' ! d"

function bigintToString :: "nat \<Rightarrow> string" where
  "bigintToString n =
     (if n < 10 then [digitChar n]
      else bigintToString (n div 10) @ [digitChar (n mod 10)])"
  by pat_completeness auto
termination
  by (relation "measure id") auto

declare bigintToString.simps [simp del]

text \<open>The body of the catch-up loop of \<^verbatim>\<open>bootstrapEvents\<close>, for one queried event.\<close>

definition ingest :: "LedgerEvent \<Rightarrow> state \<Rightarrow> state" where
  "ingest event s =
     (case ev_args event of
        None \<Rightarrow> s
      | Some args \<Rightarrow>
          persistEvent (Some (bigintToString (a_mailId args))) (Some (a_contentCID args))
            (a_senderEmail args) (a_recipientEmail args) (int (a_timestamp args))
            (ev_blockNumber event) (ev_transactionHash event) s)"

text \<open>
  The catch-up phase: when \<open>current \<ge> startBlock\<close>, every event that
  \<^verbatim>\<open>queryFilter(MailSent, startBlock, current)\<close> returns is ingested, in order.
\<close>

definition catchUp :: "(nat \<Rightarrow> nat \<Rightarrow> LedgerEvent list) \<Rightarrow> nat \<Rightarrow> nat \<Rightarrow> state \<Rightarrow> state" where
  "catchUp queryFilter startBlock current s =
     (if current \<ge> startBlock then fold ingest (queryFilter startBlock current) s else s)"

text \<open>The listener registered with \<^verbatim>\<open>mailer.on('MailSent', ...)\<close>.\<close>

definition onMailSent ::
  "nat \<Rightarrow> string \<Rightarrow> string \<Rightarrow> string \<Rightarrow> nat \<Rightarrow> LedgerEvent \<Rightarrow> state \<Rightarrow> state" where
  "onMailSent mailId recipientEmail senderEmail contentCID timestamp event s =
     persistEvent (Some (bigintToString mailId)) (Some contentCID) senderEmail recipientEmail
       (int timestamp) (ev_blockNumber event) (ev_transactionHash event) s"

section \<open>Properties assumed of the external primitives\<close>





text \<open>The events a run has added to the trace.\<close>

definition emitted :: "state \<Rightarrow> state \<Rightarrow> event list" where
  "emitted s s' = drop (length (st_trace s)) (st_trace s')"

section \<open>A small instance of the primitives and the world, for concrete runs\<close>

text \<open>
  The instance is not cryptography; it has the shape of the primitives (a key pair, a
  commutative agreement, a keyed stream with a tag) so that the definitions can be run.
\<close>

definition demo_getPublicKey :: "bytes \<Rightarrow> error + bytes" where
  "demo_getPublicKey k =
     (if length k = 32 \<and> \<not> list_all (\<lambda>b. b = 0) k then Inr (2 # k)
      else Inl (LibError ''invalid private key''))"

definition demo_getSharedSecret :: "bytes \<Rightarrow> bytes \<Rightarrow> error + bytes" where
  "demo_getSharedSecret k p =
     (if length k = 32 \<and> length p = 33 then Inr (2 # map2 (XOR) k (tl p))
      else Inl (LibError ''invalid key''))"

definition demo_hkdf :: "bytes \<Rightarrow> bytes \<Rightarrow> bytes \<Rightarrow> nat \<Rightarrow> bytes" where
  "demo_hkdf ikm salt info n =
     map (\<lambda>b. b + word_of_nat (length info)) (take n (ikm @ replicate n 0))"

definition demo_hmac :: "bytes \<Rightarrow> bytes \<Rightarrow> bytes" where
  "demo_hmac key msg = map2 (XOR) key (take (length key) (msg @ replicate (length key) 0))"

definition demo_seal :: "bytes \<Rightarrow> bytes \<Rightarrow> bytes \<Rightarrow> error + bytes \<times> bytes" where
  "demo_seal key iv pt =
     (if length key \<noteq> 32 then Inl (LibError ''Invalid key length'')
      else Inr (xorMask pt key, take 16 (demo_hmac key (iv @ xorMask pt key))))"

definition demo_open :: "bytes \<Rightarrow> bytes \<Rightarrow> bytes \<Rightarrow> bytes \<Rightarrow> error + bytes" where
  "demo_open key iv ct tag =
     (if length key \<noteq> 32 then Inl (LibError ''Invalid key length'')
      else if tag \<noteq> take 16 (demo_hmac key (iv @ ct))
      then Inl (LibError ''Unsupported state or unable to authenticate data'')
      else Inr (xorMask ct key))"

definition demo_content :: MailContent where
  "demo_content =
     \<lparr> mail_from = ''a@x'', mail_to = ''b@x'', mail_subject = ''hi'', mail_body = ''hello'',
       mail_timestamp = Some 1700000000000, mail_attachments = None \<rparr>"

definition demo_json :: string where
  "demo_json = ''{from:a@x,to:b@x,subject:hi,body:hello}''"

definition demo_stringify :: "MailContent \<Rightarrow> string" where
  "demo_stringify c =
     ''{from:'' @ mail_from c @ '',to:'' @ mail_to c @ '',subject:'' @ mail_subject c
       @ '',body:'' @ mail_body c @ ''}''"

definition demo_parse :: "string \<Rightarrow> error + MailContent" where
  "demo_parse text =
     (if text = demo_json then Inr demo_content else Inl (LibError ''SyntaxError''))"

definition demo_primitives :: primitives where
  "demo_primitives =
     \<lparr> noble_getPublicKey = demo_getPublicKey,
       noble_getSharedSecret = demo_getSharedSecret,
       hkdfSync = demo_hkdf,
       hmacSha256 = demo_hmac,
       aesGcmSeal = demo_seal,
       aesGcmOpen = demo_open,
       jsonStringifyMail = demo_stringify,
       jsonParseMail = demo_parse \<rparr>"

definition demo_manager :: EncryptionManager where
  "demo_manager = \<lparr> em_version = ''1.0'' \<rparr>"

definition demo_privateKey :: bytes where
  "demo_privateKey = replicate 32 1"

definition demo_privateKeyHex :: string where
  "demo_privateKeyHex = toHex demo_privateKey"

definition demo_publicKeyHex :: string where
  "demo_publicKeyHex = toHex (2 # demo_privateKey)"

text \<open>
  A tape whose third draw of 32 bytes is all zero, so that the resampling loop runs once.
\<close>

definition demo_tape :: bytes where
  "demo_tape = replicate 32 7 @ replicate 12 9 @ replicate 32 0 @ replicate 32 3"

definition demo_package :: EncryptedMailPackage where
  "demo_package =
     (case encrypt demo_primitives demo_manager 0 demo_tape demo_content demo_publicKeyHex of
        Inr (pkg, _) \<Rightarrow> pkg)"


definition demo_env :: env where
  "demo_env =
     \<lparr> prims = demo_primitives,
       keccakDigest = (\<lambda>data. take 32 (data @ replicate 32 0)),
       jsonStringifyPackage = (\<lambda>pkg. ec_ciphertext (encryptedContent pkg)),
       registry_resolveEmail = (\<lambda>email. Inr ''0x00000000000000000000000000000000000000b0''),
       recipientResolver =
         Some (\<lambda>email owner.
           Inr \<lparr> rr_email = email, rr_owner = owner, rr_publicKey = demo_publicKeyHex \<rparr>),
       gzip = (\<lambda>data. data),
       ipfs_add = (\<lambda>data pin. Inr ''bafydemo''),
       ipfs_pin_add = (\<lambda>cid. Inr ()),
       groth16_fullProve =
         (\<lambda>inputs. Inr (\<lparr> pi_a = [''1'', ''2''], pi_b = [[''3'', ''4''], [''5'', ''6'']],
                           pi_c = [''7'', ''8''] \<rparr>, [''1''])),
       groth16_verify = (\<lambda>key publicSignals proof. Inr False),
       abi_encodeProof = (\<lambda>proof. Inr ''0x01''),
       abi_decodeProof = (\<lambda>encoded. Inl (LibError ''invalid proof'')),
       bigIntToString = (\<lambda>h. Inr h),
       mailer_sendMail =
         (\<lambda>proof contentCID senderEmail recipientEmail.
           Inr \<lparr> tx_hash = ''0xabc'',
                 tx_wait = Inr (Some \<lparr> rc_logs = Some [], rc_blockNumber = Some 7 \<rparr>) \<rparr>),
       mailSentTopicHash = Some ''0xtopic'',
       parseLogMailId = (\<lambda>log. Inr (Some (log_data log))) \<rparr>"


definition demo_client :: BaseMailerClient where
  "demo_client =
     \<lparr> encryption = demo_manager, storage = \<lparr> shouldPin = True, shouldCompress = True \<rparr> \<rparr>"

definition demo_params :: SendMailParams where
  "demo_params =
     \<lparr> p_from = ''a@x'', p_to = ''b@x'', p_subject = ''hi'', p_body = ''hello'',
       p_attachments = None \<rparr>"

definition demo_state :: state where
  "demo_state =
     \<lparr> st_tape = demo_tape, st_now = 1700000000000, st_cidStore = Map.empty, st_mails = [],
       st_trace = [] \<rparr>"

definition demo_service :: EmailService where
  "demo_service =
     \<lparr> svc_ipfs = \<lparr> shouldPin = True, shouldCompress = True \<rparr>, svc_verificationKey = None \<rparr>"

definition demo_request :: SendMailRequest where
  "demo_request =
     \<lparr> rq_proof = Some ''0x01'', rq_cid = Some ''bafydemo'', rq_senderEmail = Some ''a@x'',
       rq_recipientEmail = Some ''b@x'' \<rparr>"

definition demo_commitment :: string where
  "demo_commitment = cidToBytes32 (keccakDigest demo_env) ''bafydemo''"

definition demo_args :: MailSentArgs where
  "demo_args =
     \<lparr> a_mailId = 7, a_contentCID = demo_commitment, a_senderEmail = ''a@x'',
       a_recipientEmail = ''b@x'', a_timestamp = 1700 \<rparr>"

definition demo_event :: LedgerEvent where
  "demo_event =
     \<lparr> ev_args = Some demo_args, ev_blockNumber = Some 7, ev_transactionHash = Some ''0xabc'' \<rparr>"

section \<open>Hex strings and buffers\<close>

lemma hexValue_hexDigit: "n < 16 \<Longrightarrow> hexValue (hexDigit n) = Some n"
proof -
  have "\<forall>k \<in> set [0..<16]. hexValue (hexDigit k) = Some k"
    by code_simp
  then show "n < 16 \<Longrightarrow> hexValue (hexDigit n) = Some n" by simp
qed

lemma byte_div_16: "unat (b :: byte) div 16 < 16"
proof -
  have "unat b < 256" using unsigned_less [of b] by simp
  then show ?thesis by simp
qed

lemma hexDecode_hexEncode: "hexDecode (hexEncode bs) = bs"
  by (induction bs) (simp_all add: hexEncode_def hexValue_hexDigit byte_div_16)

lemma fromHex_toHex: "fromHex (toHex bs) = Inr bs"
  using hexDecode_hexEncode by (simp add: fromHex_def toHex_def startsWith_def)



lemma length_hexEncode: "length (hexEncode bs) = 2 * length bs"
  by (induction bs) (simp_all add: hexEncode_def)

lemma length_toHex: "length (toHex bs) = 2 + 2 * length bs"
  by (simp add: toHex_def length_hexEncode)

lemma bufferToUtf8_bufferFromUtf8: "bufferToUtf8 (bufferFromUtf8 s) = s"
  by (induction s) (simp_all add: bufferToUtf8_def bufferFromUtf8_def unat_of_nat)

section \<open>Key wrapping\<close>

lemma length_xorMask: "length (xorMask k m) = length k"
  by (simp add: xorMask_def)




text \<open>
  Whenever \<open>decrypt\<close> returns a content, the MAC that the package carries is the one
  recomputed from the shared secret and the wrapped key.
\<close>

lemma decrypt_success_mac_verified:
  assumes "decrypt P M pkg privHex = Inr content"
  shows "\<exists>epk sk secret wrapped.
           normalizePublicKey (ek_ephemeralPublicKey (encryptedKey pkg)) = Inr epk
         \<and> normalizePrivateKey privHex = Inr sk
         \<and> computeSharedSecret P sk epk = Inr secret
         \<and> fromHex (ek_ciphertext (encryptedKey pkg)) = Inr wrapped
         \<and> fromHex (ek_mac (encryptedKey pkg))
             = Inr (hmacSha256 P (deriveKey P secret ''basemailer-mac'' 32) wrapped)"
proof -
  from assms obtain key where "unwrapSymmetricKey P pkg privHex = Inr key"
    by (auto simp: decrypt_def split: sum.splits)
  then show ?thesis
    by (auto simp: unwrapSymmetricKey_def Let_def split: sum.splits if_splits)
qed

section \<open>The small instance satisfies the assumed properties\<close>










section \<open>Claims about the hybrid encryption\<close>






text \<open>
  C3, as the code has it. \<open>decrypt\<close> reads neither the package's version, nor its
  metadata, nor the version of the manager: a package with any version is decrypted as
  the same package with any other version.
\<close>

theorem decrypt_ignores_version:
  "decrypt P M' (pkg\<lparr>pkg_version := v, metadata := md\<rparr>) privHex = decrypt P M pkg privHex"
  by (simp add: decrypt_def unwrapSymmetricKey_def cong: sum.case_cong)

theorem decrypt_unknown_version_counterexample:
  "decrypt demo_primitives \<lparr> em_version = ''1.0'' \<rparr>
     (demo_package\<lparr>pkg_version := ''9.9''\<rparr>) demo_privateKeyHex = Inr demo_content"
  by code_simp

section \<open>Traces of the dispatch\<close>

lemma sendMail_submit_after_set:
  assumes "sendMail E C params s = (r, s')"
    and "emitted s s' = pre @ EvMailerSendMail packed c f t # post"
  shows "\<exists>cid. EvCidStoreSet c cid \<in> set pre \<and> c = cidToBytes32 (keccakDigest E) cid
            \<and> st_cidStore s' c = Some cid"
  using assms
  by (auto simp: sendMail_def andThen_def call_def throw_def ret_def resolveRecipient_def
      resolveOwner_def dateNow_def encryptStep_def upload_def cidStoreSet_def generateProof_def
      emitted_def cidStore_set_def Let_def Cons_eq_append_conv append_eq_Cons_conv
      split: if_splits sum.splits prod.splits option.splits)

lemma postSendMail_submit_after_set:
  assumes "postSendMail E S req s = (resp, s')"
    and "emitted s s' = pre @ EvMailerSendMail packed c f t # post"
  shows "\<exists>cid. EvCidStoreSet c cid \<in> set pre \<and> c = cidToBytes32 (keccakDigest E) cid
            \<and> st_cidStore s' c = Some cid"
  using assms
  by (auto simp: postSendMail_def sendMailBody_def andThen_def call_def throw_def ret_def
      dateNow_def cidStoreSet_def verifyProof_def pin_def storeSave_def
      emitted_def cidStore_set_def Let_def Cons_eq_append_conv append_eq_Cons_conv
      split: if_splits sum.splits prod.splits option.splits)






section \<open>The service without a verification key\<close>

lemma firstMailSentService_verifier:
  "firstMailSentService (E\<lparr>groth16_verify := v\<rparr>) topicHash logs
     = firstMailSentService E topicHash logs"
  by (induction logs) simp_all

lemma extractMailId_verifier:
  "extractMailId (E\<lparr>groth16_verify := v\<rparr>) logs = extractMailId E logs"
  by (simp add: extractMailId_def firstMailSentService_verifier
      split: option.splits)

lemma sendMailBody_verifier:
  assumes "svc_verificationKey S = None"
  shows "sendMailBody (E\<lparr>groth16_verify := v\<rparr>) S packed cid sender recipient
           = sendMailBody E S packed cid sender recipient"
  using assms
  by (simp add: sendMailBody_def pin_def extractMailId_verifier cong: if_cong)

lemma postSendMail_verifier:
  assumes "svc_verificationKey S = None"
  shows "postSendMail (E\<lparr>groth16_verify := v\<rparr>) S req s = postSendMail E S req s"
  by (simp add: postSendMail_def sendMailBody_verifier [OF assms])

lemma postSendMail_never_verifies:
  assumes "svc_verificationKey S = None"
  shows "EvGroth16Verify sigs \<notin> set (emitted s (snd (postSendMail E S req s)))"
  using assms
  by (auto simp: postSendMail_def sendMailBody_def andThen_def call_def throw_def ret_def
      dateNow_def cidStoreSet_def pin_def storeSave_def emitted_def Let_def
      split: if_splits sum.splits prod.splits option.splits)

lemma postSendMail_reaches_submit:
  assumes "svc_verificationKey S = None"
    and "rq_proof req = Some packed" "packed \<noteq> []"
    and "rq_cid req = Some cid" "cid \<noteq> []"
    and "rq_senderEmail req = Some sender" "sender \<noteq> []"
    and "rq_recipientEmail req = Some recipient" "recipient \<noteq> []"
    and "registry_resolveEmail E sender = Inr owner" "owner \<noteq> zeroAddress"
    and "shouldPin (svc_ipfs S) \<longrightarrow> ipfs_pin_add E cid = Inr ()"
  shows "EvMailerSendMail packed (cidToBytes32 (keccakDigest E) cid) sender recipient
           \<in> set (emitted s (snd (postSendMail E S req s)))
       \<and> (shouldPin (svc_ipfs S) \<longrightarrow>
             EvIpfsPinAdd cid \<in> set (emitted s (snd (postSendMail E S req s))))"
  using assms
  by (auto simp: postSendMail_def sendMailBody_def andThen_def call_def throw_def ret_def
      dateNow_def cidStoreSet_def pin_def storeSave_def emitted_def falsy_def Let_def
      split: if_splits sum.splits prod.splits option.splits)

section \<open>The mail index\<close>

lemma mapSet_idem: "mapSet k v (mapSet k v m) = mapSet k v m"
  by (induction m) auto

lemma keys_mapSet:
  "map fst (mapSet k v m) = (if k \<in> set (map fst m) then map fst m else map fst m @ [k])"
proof (induction m)
  case Nil
  show ?case by simp
next
  case (Cons p m)
  obtain k' v' where p: "p = (k', v')" by (cases p)
  show ?case using Cons.IH by (cases "k' = k") (simp_all add: p)
qed

lemma distinct_mapSet: "distinct (map fst m) \<Longrightarrow> distinct (map fst (mapSet k v m))"
  by (simp add: keys_mapSet)

lemma filter_absent_key: "k \<notin> set (map fst m) \<Longrightarrow> filter (\<lambda>(k', v). k' = k) m = []"
  by (induction m) auto

lemma one_record_mapSet:
  "distinct (map fst m) \<Longrightarrow> length (filter (\<lambda>(k', v'). k' = k) (mapSet k v m)) = 1"
proof (induction m)
  case Nil
  show ?case by simp
next
  case (Cons p m)
  obtain k' v' where p: "p = (k', v')" by (cases p)
  show ?case
  proof (cases "k' = k")
    case True
    with Cons.prems p have "k \<notin> set (map fst m)" by simp
    with True p show ?thesis by (simp add: filter_absent_key)
  next
    case False
    with Cons p show ?thesis by simp
  qed
qed

lemma persistEvent_twice:
  "persistEvent mailId contentCID sender recipient ts bn tx
     (persistEvent mailId contentCID sender recipient ts bn tx s)
   = persistEvent mailId contentCID sender recipient ts bn tx s"
  by (simp add: persistEvent_def save_def mapSet_idem Let_def)

lemma persistEvent_distinct:
  "distinct (map fst (st_mails s)) \<Longrightarrow>
   distinct (map fst (st_mails (persistEvent mailId contentCID sender recipient ts bn tx s)))"
  by (simp add: persistEvent_def save_def distinct_mapSet Let_def)

lemma ingest_distinct:
  "distinct (map fst (st_mails s)) \<Longrightarrow> distinct (map fst (st_mails (ingest event s)))"
  by (simp add: ingest_def persistEvent_distinct split: option.splits)

lemma fold_ingest_distinct:
  "distinct (map fst (st_mails s)) \<Longrightarrow> distinct (map fst (st_mails (fold ingest events s)))"
  by (induction events arbitrary: s) (simp_all add: ingest_distinct)

lemma catchUp_distinct:
  "distinct (map fst (st_mails s)) \<Longrightarrow> distinct (map fst (st_mails (catchUp q a b s)))"
  by (simp add: catchUp_def fold_ingest_distinct)

lemma bigintToString_nonempty: "bigintToString n \<noteq> []"
  by (subst bigintToString.simps) simp

lemma onMailSent_one_record:
  assumes "distinct (map fst (st_mails s))" and "contentCID \<noteq> []"
  shows "length (filter (\<lambda>(k, m). k = bigintToString mailId)
           (st_mails (onMailSent mailId recipient sender contentCID ts event s))) = 1"
  using assms
  by (simp add: onMailSent_def persistEvent_def falsy_def bigintToString_nonempty save_def
      one_record_mapSet Let_def)

section \<open>Concrete runs\<close>


lemma demo_sendMail_trace:
  "emitted demo_state (snd (sendMail demo_env demo_client demo_params demo_state))
     = [EvResolveEmail ''b@x'',
        EvRecipientResolver ''b@x'' ''0x00000000000000000000000000000000000000b0'',
        EvEncrypt demo_content demo_publicKeyHex,
        EvIpfsAdd (bufferFromUtf8 (ec_ciphertext (encryptedContent demo_package))),
        EvCidStoreSet demo_commitment ''bafydemo'',
        EvFullProve
          \<lparr> in_senderEmail = ''a@x'', in_recipientEmail = ''b@x'',
            in_contentHash =
              keccak256 (keccakDigest demo_env)
                (toUtf8Bytes (ec_ciphertext (encryptedContent demo_package))) \<rparr>]
       @ EvMailerSendMail ''0x01'' demo_commitment ''a@x'' ''b@x'' # [EvTxWait ''0xabc'']"
  by code_simp




lemma demo_postSendMail_trace:
  "emitted demo_state (snd (postSendMail demo_env demo_service demo_request demo_state))
     = [EvResolveEmail ''a@x'', EvCidStoreSet demo_commitment ''bafydemo'',
        EvIpfsPinAdd ''bafydemo'']
       @ EvMailerSendMail ''0x01'' demo_commitment ''a@x'' ''b@x'' # [EvTxWait ''0xabc'']"
  by code_simp


section \<open>Claims about the dispatch\<close>







text \<open>
  C6. The commitment of a handle is the hex form of the digest of the handle's UTF-8
  bytes and of nothing else: it decodes to that digest, which has 32 bytes when the digest
  function yields 32 bytes, and equal handles have equal commitments.
\<close>

theorem commitment_is_digest_of_handle:
  assumes "\<forall>data. length (K data) = 32"
  shows "cidToBytes32 K cid = toHex (K (toUtf8Bytes cid))
       \<and> fromHex (cidToBytes32 K cid) = Inr (K (toUtf8Bytes cid))
       \<and> length (K (toUtf8Bytes cid)) = 32
       \<and> length (cidToBytes32 K cid) = 66
       \<and> bufferToUtf8 (toUtf8Bytes cid) = cid
       \<and> (cid' = cid \<longrightarrow> cidToBytes32 K cid' = cidToBytes32 K cid)"
  using assms
  by (simp add: cidToBytes32_def keccak256_def fromHex_toHex toUtf8Bytes_def
      bufferToUtf8_bufferFromUtf8 length_toHex)

theorem commitment_is_digest_of_handle_witness:
  "(\<forall>data. length (keccakDigest demo_env data) = 32)
   \<and> fromHex (cidToBytes32 (keccakDigest demo_env) ''bafydemo'')
       = Inr (keccakDigest demo_env (toUtf8Bytes ''bafydemo''))
   \<and> length (cidToBytes32 (keccakDigest demo_env) ''bafydemo'') = 66"
proof -
  have len: "\<forall>data. length (keccakDigest demo_env data) = 32"
    by (auto simp: demo_env_def min_def)
  from commitment_is_digest_of_handle [OF len, where cid = "''bafydemo''"] len
  show ?thesis by blast
qed

text \<open>
  C7. In a run of the client's \<open>sendMail\<close> and in a run of the service's \<open>postSendMail\<close>,
  every submission to the mailer contract is preceded in the trace by the write of its
  commitment, with the handle it was computed from, to the commitment map, and the map
  holds that entry when the run ends.
\<close>

theorem commitment_remembered_before_submit:
  "(sendMail E C params s = (r, s') \<longrightarrow>
      emitted s s' = pre @ EvMailerSendMail packed c f t # post \<longrightarrow>
      (\<exists>cid. EvCidStoreSet c cid \<in> set pre \<and> c = cidToBytes32 (keccakDigest E) cid
            \<and> st_cidStore s' c = Some cid))
   \<and> (postSendMail E S req s = (resp, s'') \<longrightarrow>
      emitted s s'' = pre' @ EvMailerSendMail packed' c' f' t' # post' \<longrightarrow>
      (\<exists>cid. EvCidStoreSet c' cid \<in> set pre' \<and> c' = cidToBytes32 (keccakDigest E) cid
            \<and> st_cidStore s'' c' = Some cid))"
  using sendMail_submit_after_set [where E = E and C = C and params = params and s = s
      and r = r and s' = s' and pre = pre and packed = packed and c = c and f = f and t = t
      and post = post]
    postSendMail_submit_after_set [where E = E and S = S and req = req and s = s
      and resp = resp and s' = s'' and pre = pre' and packed = packed' and c = c' and f = f'
      and t = t' and post = post']
  by simp

theorem commitment_remembered_before_submit_witness:
  "(\<exists>cid. EvCidStoreSet demo_commitment cid
            \<in> set [EvResolveEmail ''b@x'',
                   EvRecipientResolver ''b@x'' ''0x00000000000000000000000000000000000000b0'',
                   EvEncrypt demo_content demo_publicKeyHex,
                   EvIpfsAdd (bufferFromUtf8 (ec_ciphertext (encryptedContent demo_package))),
                   EvCidStoreSet demo_commitment ''bafydemo'',
                   EvFullProve
                     \<lparr> in_senderEmail = ''a@x'', in_recipientEmail = ''b@x'',
                       in_contentHash =
                         keccak256 (keccakDigest demo_env)
                           (toUtf8Bytes (ec_ciphertext (encryptedContent demo_package))) \<rparr>]
        \<and> demo_commitment = cidToBytes32 (keccakDigest demo_env) cid
        \<and> st_cidStore (snd (sendMail demo_env demo_client demo_params demo_state))
             demo_commitment = Some cid)
   \<and> (\<exists>cid. EvCidStoreSet demo_commitment cid
            \<in> set [EvResolveEmail ''a@x'', EvCidStoreSet demo_commitment ''bafydemo'',
                   EvIpfsPinAdd ''bafydemo'']
        \<and> demo_commitment = cidToBytes32 (keccakDigest demo_env) cid
        \<and> st_cidStore (snd (postSendMail demo_env demo_service demo_request demo_state))
             demo_commitment = Some cid)"
proof -
  have run: "sendMail demo_env demo_client demo_params demo_state
      = (fst (sendMail demo_env demo_client demo_params demo_state),
         snd (sendMail demo_env demo_client demo_params demo_state))"
    by simp
  have post: "postSendMail demo_env demo_service demo_request demo_state
      = (fst (postSendMail demo_env demo_service demo_request demo_state),
         snd (postSendMail demo_env demo_service demo_request demo_state))"
    by simp
  from commitment_remembered_before_submit
      [THEN conjunct1, rule_format, OF run demo_sendMail_trace]
    commitment_remembered_before_submit
      [THEN conjunct2, rule_format, OF post demo_postSendMail_trace]
  show ?thesis by (rule conjI)
qed

section \<open>Claims about the ingestion\<close>

text \<open>
  C8. Applying the upsert of an event a second time, right after the first, leaves the
  state as the first application left it; the live delivery of an event that the catch-up
  loop has just ingested changes nothing; and whatever the catch-up phase ingested into an
  index without duplicate keys, after the live delivery of an event the index holds
  exactly one record under the event's mail id.
\<close>

theorem ingestion_idempotent:
  "persistEvent mailId contentCID sender recipient ts bn tx
     (persistEvent mailId contentCID sender recipient ts bn tx s)
     = persistEvent mailId contentCID sender recipient ts bn tx s
   \<and> (ev_args event = Some args \<longrightarrow>
        onMailSent (a_mailId args) (a_recipientEmail args) (a_senderEmail args)
          (a_contentCID args) (a_timestamp args) event (ingest event s) = ingest event s)
   \<and> (distinct (map fst (st_mails s)) \<longrightarrow> a_contentCID args \<noteq> [] \<longrightarrow>
        length (filter (\<lambda>(k, m). k = bigintToString (a_mailId args))
          (st_mails (onMailSent (a_mailId args) (a_recipientEmail args) (a_senderEmail args)
             (a_contentCID args) (a_timestamp args) live
             (catchUp queryFilter startBlock current s)))) = 1)"
  using onMailSent_one_record [OF catchUp_distinct, of s "a_contentCID args"]
  by (simp add: persistEvent_twice onMailSent_def ingest_def)

theorem ingestion_idempotent_witness:
  "onMailSent 7 ''b@x'' ''a@x'' demo_commitment 1700 demo_event (ingest demo_event demo_state)
     = ingest demo_event demo_state
   \<and> length (filter (\<lambda>(k, m). k = bigintToString 7)
        (st_mails (onMailSent 7 ''b@x'' ''a@x'' demo_commitment 1700
           \<lparr> ev_args = None, ev_blockNumber = None, ev_transactionHash = None \<rparr>
           (catchUp (\<lambda>a b. [demo_event, demo_event]) 1 7 demo_state)))) = 1"
proof -
  have args: "ev_args demo_event = Some demo_args"
    by (simp add: demo_event_def)
  have dist: "distinct (map fst (st_mails demo_state))"
    by (simp add: demo_state_def)
  have cid: "a_contentCID demo_args \<noteq> []"
    by (simp add: demo_args_def demo_commitment_def cidToBytes32_def keccak256_def toHex_def)
  from ingestion_idempotent [where s = demo_state and event = demo_event and args = demo_args
      and live = "\<lparr> ev_args = None, ev_blockNumber = None, ev_transactionHash = None \<rparr>"
      and queryFilter = "\<lambda>a b. [demo_event, demo_event]" and startBlock = 1 and current = 7]
    args dist cid
  show ?thesis by (simp add: demo_args_def)
qed

text \<open>
  C9. An event whose mail id or commitment is missing or empty is dropped by
  \<open>persistEvent\<close>, and a queried event without decoded arguments or with an empty commitment
  is dropped by the catch-up loop: the state, and so the index, is unchanged.
\<close>

theorem incomplete_event_dropped:
  "(falsy mailId \<or> falsy contentCID \<longrightarrow>
      persistEvent mailId contentCID sender recipient ts bn tx s = s)
   \<and> (ev_args event = None \<longrightarrow> ingest event s = s)
   \<and> (ev_args event = Some args \<longrightarrow> a_contentCID args = [] \<longrightarrow> ingest event s = s)"
  by (auto simp: persistEvent_def ingest_def falsy_def)

theorem incomplete_event_dropped_witness:
  "persistEvent None (Some demo_commitment) ''a@x'' ''b@x'' 1700 (Some 7) (Some ''0xabc'')
     demo_state = demo_state
   \<and> persistEvent (Some ''7'') (Some '''') ''a@x'' ''b@x'' 1700 (Some 7) (Some ''0xabc'')
     demo_state = demo_state
   \<and> ingest \<lparr> ev_args = None, ev_blockNumber = Some 7, ev_transactionHash = Some ''0xabc'' \<rparr>
       demo_state = demo_state
   \<and> ingest (demo_event\<lparr>ev_args := Some (demo_args\<lparr>a_contentCID := []\<rparr>)\<rparr>) demo_state
       = demo_state"
  using incomplete_event_dropped
      [where mailId = None and contentCID = "Some demo_commitment" and sender = "''a@x''"
         and recipient = "''b@x''" and ts = 1700 and bn = "Some 7" and tx = "Some ''0xabc''"
         and s = demo_state
         and event = "\<lparr> ev_args = None, ev_blockNumber = Some 7,
                        ev_transactionHash = Some ''0xabc'' \<rparr>"]
    incomplete_event_dropped
      [where mailId = "Some ''7''" and contentCID = "Some ''''" and sender = "''a@x''"
         and recipient = "''b@x''" and ts = 1700 and bn = "Some 7" and tx = "Some ''0xabc''"
         and s = demo_state
         and event = "demo_event\<lparr>ev_args := Some (demo_args\<lparr>a_contentCID := []\<rparr>)\<rparr>"
         and args = "demo_args\<lparr>a_contentCID := []\<rparr>"]
  by (simp add: falsy_def)

section \<open>Claim about the service\<close>

text \<open>
  C10. A service started without a verification key path holds no key. For such a
  service the answer to \<^verbatim>\<open>POST /api/send-mail\<close> and the state it leaves do not depend on
  the verifier, the verifier is never called, and a request with all four fields from a
  registered sender is pinned (when pinning is on and succeeds) and submitted to the
  mailer contract.
\<close>

theorem unverified_without_key:
  assumes "loadVerificationKey readKey None = Inr (svc_verificationKey S)"
  shows "postSendMail (E\<lparr>groth16_verify := v\<rparr>) S req s = postSendMail E S req s
       \<and> (\<forall>sigs. EvGroth16Verify sigs \<notin> set (emitted s (snd (postSendMail E S req s))))
       \<and> (rq_proof req = Some packed \<and> packed \<noteq> [] \<and> rq_cid req = Some cid \<and> cid \<noteq> []
           \<and> rq_senderEmail req = Some sender \<and> sender \<noteq> []
           \<and> rq_recipientEmail req = Some recipient \<and> recipient \<noteq> []
           \<and> registry_resolveEmail E sender = Inr owner \<and> owner \<noteq> zeroAddress
           \<and> (shouldPin (svc_ipfs S) \<longrightarrow> ipfs_pin_add E cid = Inr ())
          \<longrightarrow> EvMailerSendMail packed (cidToBytes32 (keccakDigest E) cid) sender recipient
                 \<in> set (emitted s (snd (postSendMail E S req s)))
              \<and> (shouldPin (svc_ipfs S) \<longrightarrow>
                    EvIpfsPinAdd cid \<in> set (emitted s (snd (postSendMail E S req s)))))"
proof -
  from assms have none: "svc_verificationKey S = None"
    by (simp add: loadVerificationKey_def)
  show ?thesis
    using postSendMail_verifier [OF none, where E = E and v = v and req = req and s = s]
      postSendMail_never_verifies [OF none, where s = s and E = E and req = req]
      postSendMail_reaches_submit [OF none, where req = req and packed = packed and cid = cid
        and sender = sender and recipient = recipient and E = E and owner = owner and s = s]
    by blast
qed

theorem unverified_without_key_witness:
  "postSendMail (demo_env\<lparr>groth16_verify := (\<lambda>key sigs p. Inr True)\<rparr>) demo_service
       demo_request demo_state
     = postSendMail demo_env demo_service demo_request demo_state
   \<and> EvMailerSendMail ''0x01'' (cidToBytes32 (keccakDigest demo_env) ''bafydemo'') ''a@x'' ''b@x''
       \<in> set (emitted demo_state (snd (postSendMail demo_env demo_service demo_request demo_state)))
   \<and> EvIpfsPinAdd ''bafydemo''
       \<in> set (emitted demo_state (snd (postSendMail demo_env demo_service demo_request demo_state)))"
proof -
  have key: "loadVerificationKey (\<lambda>path. Inl (LibError ''ENOENT'')) None
      = Inr (svc_verificationKey demo_service)"
    by (simp add: loadVerificationKey_def demo_service_def)
  have owner: "registry_resolveEmail demo_env ''a@x''
      = Inr ''0x00000000000000000000000000000000000000b0''"
    by (simp add: demo_env_def)
  have nonzero: "''0x00000000000000000000000000000000000000b0'' \<noteq> zeroAddress"
    by (simp add: zeroAddress_def)
  have pinned: "ipfs_pin_add demo_env ''bafydemo'' = Inr ()"
    by (simp add: demo_env_def)
  from unverified_without_key [OF key, where E = demo_env
      and v = "\<lambda>key sigs p. Inr True" and req = demo_request and s = demo_state
      and packed = "''0x01''" and cid = "''bafydemo''" and sender = "''a@x''"
      and recipient = "''b@x''" and owner = "''0x00000000000000000000000000000000000000b0''"]
    owner nonzero pinned
  show ?thesis
    by (simp add: demo_request_def demo_service_def)
qed

end
